theory Spec2Isabelle
  imports Complex_Main "HOL-Library.Char_ord" "HOL-Library.List_Lexorder" "HOL-Library.Multiset"
begin

section \<open>Lightcap: the \<open>Lightcurve\<close> class of \<open>src/lightcap.py\<close>\<close>

text \<open>
  The class keeps its data in attributes of one object, mutates them in place, reports
  most bad calls by printing a message and returning, and lets Python's own exceptions
  escape everywhere else. The embedding therefore has
  \<^item> a datatype of the Python values the methods inspect with \<open>type\<close> and \<open>len\<close>;
  \<^item> a record for the object, an attribute that may not exist yet being an \<open>option\<close>;
  \<^item> a store of list objects for the inner lists of \<open>self.reference\<close>, which
    \<open>differential_magnitude\<close> shares between two outer lists;
  \<^item> for every method a function from the object to an outcome (what was printed, what
    was raised) and the object as the call leaves it, also when it raises.
  Flux values are \<open>numpy.float64\<close> in the source and real numbers here: rounding is not
  modelled, and neither are the infinities and NaNs numpy returns for a division by zero
  or the logarithm of a non-positive number. The quotients and logarithms of the model
  are those of the source where every flux value is strictly positive, and every
  statement about a magnitude below is made there.
\<close>

subsection \<open>Python values, exceptions, printed messages\<close>

datatype pyval =
    PyNone
  | PyNum real
  | PyStr string
  | PyTuple "pyval list"
  | PyList "pyval list"

datatype py_error =
    AttributeError
  | IndexError
  | KeyError
  | TypeError
  | ValueError
  | ZeroDivisionError
  | UnboundLocalError
  | OSError

text \<open>The five \<open>print\<close> calls of the class, in the order of the source.\<close>

datatype message =
    PositionMustBeTuple
  | PositionMustBeTupleOrList
  | SetTargetAndReferenceFirst
  | PhotometryAlreadyPerformed
  | AverageNotComputed

datatype outcome = Outcome (printed: "message list") (raised: "py_error option")

abbreviation Done :: outcome where
  "Done \<equiv> Outcome [] None"

abbreviation Printed :: "message \<Rightarrow> outcome" where
  "Printed m \<equiv> Outcome [m] None"

abbreviation Raised :: "py_error \<Rightarrow> outcome" where
  "Raised e \<equiv> Outcome [] (Some e)"

text \<open>\<open>type(v) == tuple\<close>, \<open>type(v) == list\<close>, \<open>type(v) == str\<close>.\<close>

fun is_tuple :: "pyval \<Rightarrow> bool" where
  "is_tuple (PyTuple vs) = True"
| "is_tuple v = False"

fun is_list :: "pyval \<Rightarrow> bool" where
  "is_list (PyList vs) = True"
| "is_list v = False"

fun is_str :: "pyval \<Rightarrow> bool" where
  "is_str (PyStr s) = True"
| "is_str v = False"

text \<open>\<open>len(v)\<close>: a number and \<open>None\<close> have no length.\<close>

fun py_len :: "pyval \<Rightarrow> py_error + nat" where
  "py_len (PyStr s) = Inr (length s)"
| "py_len (PyTuple vs) = Inr (length vs)"
| "py_len (PyList vs) = Inr (length vs)"
| "py_len v = Inl TypeError"

subsection \<open>The libraries the class calls\<close>

text \<open>
  An HDU as far as the class reads it: the header (\<open>hdu.header["JD"]\<close>) and the image,
  which only \<open>aperture_photometry\<close> looks at.
\<close>

record hdu =
  header :: "(string \<times> pyval) list"
  data :: "real list list"

text \<open>The object \<open>CircularAperture(position, r=radius)\<close> builds.\<close>

datatype aperture = CircularAperture (ap_positions: pyval) (ap_r: pyval)

text \<open>
  photutils is a parameter of the model. \<open>aperture_init\<close> is the validation in
  \<open>CircularAperture.__init__\<close>: the exception it raises, or \<open>None\<close> when it accepts its
  arguments. \<open>aperture_photometry\<close> returns the table it computes, as its column 3
  (\<open>aperture_sum\<close>, one row per aperture), or the exception it raises.
\<close>

record photutils =
  aperture_init :: "pyval \<Rightarrow> pyval \<Rightarrow> py_error option"
  aperture_photometry :: "hdu \<Rightarrow> aperture \<Rightarrow> py_error + real list"

text \<open>\<open>phot_table[r][3]\<close>.\<close>

definition table_row :: "real list \<Rightarrow> nat \<Rightarrow> py_error + real" where
  "table_row tbl r = (if r < length tbl then Inr (tbl ! r) else Inl IndexError)"

text \<open>
  The file system is a parameter too: \<open>os.chdir\<close> (the exception it raises, if any),
  \<open>glob.glob\<close> in the directory \<open>os.chdir\<close> moved to, and \<open>fits.open(p)[0]\<close>.
\<close>

record filesys =
  chdir :: "string \<Rightarrow> py_error option"
  glob :: "string \<Rightarrow> string list"
  fits_open :: "string \<Rightarrow> py_error + hdu"

subsection \<open>The object\<close>

type_synonym addr = nat

text \<open>
  An element of \<open>self.reference\<close>: a flux value (one reference) or a list object (several
  references), held by its address in the store.
\<close>

datatype refitem = RNum real | RRef addr

record lightcurve =
  target :: "real list"
  target_pos :: pyval
  reference :: "refitem list"
  reference_pos :: pyval
  fits_list :: "string list"
  hdu_list :: "hdu list"
  jd_axis :: "pyval list"
  target_aperture :: "aperture option"
  target_name :: "pyval option"
  number_of_references :: "nat option"
  reference_aperture :: "aperture option"
  reference_name :: "pyval option"
  target_magnitude :: "real list option"
  reference_magnitude :: "refitem list option"
  heap :: "addr \<Rightarrow> real list"
  next_addr :: addr

subsection \<open>\<open>__init__\<close>\<close>

text \<open>\<open>os.path.dirname\<close> of \<open>posixpath\<close>.\<close>

definition dirname :: "string \<Rightarrow> string" where
  "dirname p =
     (let head = rev (dropWhile (\<lambda>c. c \<noteq> CHR ''/'') (rev p))
      in if head \<noteq> [] \<and> head \<noteq> replicate (length head) (CHR ''/'')
         then rev (dropWhile (\<lambda>c. c = CHR ''/'') (rev head))
         else head)"

text \<open>The second loop of \<open>__init__\<close>: open each file, keep its first HDU and its \<open>JD\<close>.\<close>

fun load_frames :: "filesys \<Rightarrow> string list \<Rightarrow> py_error + (hdu list \<times> pyval list)" where
  "load_frames fs [] = Inr ([], [])"
| "load_frames fs (i # rest) =
     (case fits_open fs i of
        Inl e \<Rightarrow> Inl e
      | Inr h \<Rightarrow>
          (case map_of (header h) ''JD'' of
             None \<Rightarrow> Inl KeyError
           | Some jd \<Rightarrow>
               (case load_frames fs rest of
                  Inl e \<Rightarrow> Inl e
                | Inr (hs, jds) \<Rightarrow> Inr (h # hs, jd # jds))))"

text \<open>The attributes \<open>__init__\<close> sets; every other attribute does not exist yet.\<close>

definition new_lightcurve :: "string list \<Rightarrow> hdu list \<Rightarrow> pyval list \<Rightarrow> lightcurve" where
  "new_lightcurve fl hs jds =
     \<lparr> target = [], target_pos = PyNone, reference = [], reference_pos = PyNone,
       fits_list = fl, hdu_list = hs, jd_axis = jds,
       target_aperture = None, target_name = None, number_of_references = None,
       reference_aperture = None, reference_name = None,
       target_magnitude = None, reference_magnitude = None,
       heap = (\<lambda>a. []), next_addr = 0 \<rparr>"

text \<open>
  \<open>__init__\<close>. Without a \<open>*\<close> in \<open>path\<close> the source reads \<open>self.path\<close>, an attribute
  nothing has set: Python raises \<open>AttributeError\<close>. \<open>list.sort\<close> on strings is the
  lexicographic order on characters.
\<close>

definition init :: "filesys \<Rightarrow> string \<Rightarrow> py_error + lightcurve" where
  "init fs path =
     (if CHR ''*'' \<in> set path then
        (let fits_path = path in
         case chdir fs (dirname fits_path) of
           Some e \<Rightarrow> Inl e
         | None \<Rightarrow>
             (let fl = sort (glob fs fits_path) in
              case load_frames fs fl of
                Inl e \<Rightarrow> Inl e
              | Inr (hs, jds) \<Rightarrow> Inr (new_lightcurve fl hs jds)))
      else Inl AttributeError)"

subsection \<open>\<open>set_target\<close> and \<open>set_reference\<close>\<close>

definition set_target ::
    "photutils \<Rightarrow> pyval \<Rightarrow> pyval \<Rightarrow> pyval \<Rightarrow> lightcurve \<Rightarrow> outcome \<times> lightcurve" where
  "set_target lib position radius name s =
     (if is_tuple position \<and> py_len position = Inr 2 then
        (let s1 = s\<lparr>target_pos := position\<rparr> in
         case aperture_init lib position radius of
           Some e \<Rightarrow> (Raised e, s1)
         | None \<Rightarrow>
             (let s2 = s1\<lparr>target_aperture := Some (CircularAperture position radius)\<rparr>;
                  s3 = (if is_str name then s2\<lparr>target_name := Some name\<rparr> else s2)
              in (Done, s3\<lparr>target := []\<rparr>)))
      else (Printed PositionMustBeTuple, s))"

text \<open>\<open>[[] for x in range(n)]\<close>: \<open>n\<close> new, empty list objects.\<close>

definition new_lists :: "nat \<Rightarrow> lightcurve \<Rightarrow> lightcurve" where
  "new_lists n s =
     s\<lparr>reference := map RRef [next_addr s ..< next_addr s + n],
       heap := (\<lambda>a. if next_addr s \<le> a \<and> a < next_addr s + n then [] else heap s a),
       next_addr := next_addr s + n\<rparr>"

definition set_reference ::
    "photutils \<Rightarrow> pyval \<Rightarrow> pyval \<Rightarrow> pyval \<Rightarrow> lightcurve \<Rightarrow> outcome \<times> lightcurve" where
  "set_reference lib position radius name s =
     (if is_tuple position \<and> py_len position = Inr 2 then
        (let s1 = s\<lparr>number_of_references := Some 1, reference_pos := position\<rparr> in
         case aperture_init lib position radius of
           Some e \<Rightarrow> (Raised e, s1)
         | None \<Rightarrow>
             (let s2 = s1\<lparr>reference_aperture := Some (CircularAperture position radius)\<rparr>;
                  s3 = (if is_str name \<or> is_list name
                        then s2\<lparr>reference_name := Some name\<rparr> else s2)
              in (Done, s3\<lparr>reference := []\<rparr>)))
      else
        (case position of
           PyList ps \<Rightarrow>
             (case ps of
                [] \<Rightarrow> (Raised IndexError, s)
              | p # rest \<Rightarrow>
                  (case py_len p of
                     Inl e \<Rightarrow> (Raised e, s)
                   | Inr n \<Rightarrow>
                       if n = 2 then
                         (let s1 = s\<lparr>number_of_references := Some (length ps),
                                      reference_pos := position\<rparr> in
                          case aperture_init lib position radius of
                            Some e \<Rightarrow> (Raised e, s1)
                          | None \<Rightarrow>
                              (let s2 = s1\<lparr>reference_aperture :=
                                             Some (CircularAperture position radius)\<rparr>;
                                   s3 = new_lists (length ps) s2
                               in (Done,
                                   if is_str name \<or> is_list name
                                   then s3\<lparr>reference_name := Some name\<rparr> else s3)))
                       else (Printed PositionMustBeTupleOrList, s)))
         | _ \<Rightarrow> (Printed PositionMustBeTupleOrList, s)))"

subsection \<open>\<open>read_apertures\<close>\<close>

text \<open>
  The inner loop \<open>for r in range(len(self.reference)): self.reference[r].append(phot_table[r][3])\<close>,
  on the elements from index \<open>r\<close> on. A flux value has no \<open>append\<close>.
\<close>

fun append_references ::
    "real list \<Rightarrow> nat \<Rightarrow> refitem list \<Rightarrow> (addr \<Rightarrow> real list) \<Rightarrow> py_error option \<times> (addr \<Rightarrow> real list)" where
  "append_references tbl r [] h = (None, h)"
| "append_references tbl r (RNum x # rest) h = (Some AttributeError, h)"
| "append_references tbl r (RRef a # rest) h =
     (case table_row tbl r of
        Inl e \<Rightarrow> (Some e, h)
      | Inr v \<Rightarrow> append_references tbl (Suc r) rest (h(a := h a @ [v])))"

text \<open>The body of the loop over \<open>self.hdu_list\<close>.\<close>

definition read_frame :: "photutils \<Rightarrow> hdu \<Rightarrow> lightcurve \<Rightarrow> py_error option \<times> lightcurve" where
  "read_frame lib i s =
     (case target_aperture s of
        None \<Rightarrow> (Some AttributeError, s)
      | Some ta \<Rightarrow>
          (case aperture_photometry lib i ta of
             Inl e \<Rightarrow> (Some e, s)
           | Inr target_phot_table \<Rightarrow>
               (case table_row target_phot_table 0 of
                  Inl e \<Rightarrow> (Some e, s)
                | Inr v \<Rightarrow>
                    (let s1 = s\<lparr>target := target s @ [v]\<rparr> in
                     case reference_aperture s1 of
                       None \<Rightarrow> (Some AttributeError, s1)
                     | Some ra \<Rightarrow>
                         (case aperture_photometry lib i ra of
                            Inl e \<Rightarrow> (Some e, s1)
                          | Inr phot_table \<Rightarrow>
                              (case number_of_references s1 of
                                 None \<Rightarrow> (Some AttributeError, s1)
                               | Some n \<Rightarrow>
                                   if n = 1 then
                                     (case table_row phot_table 0 of
                                        Inl e \<Rightarrow> (Some e, s1)
                                      | Inr w \<Rightarrow>
                                          (None, s1\<lparr>reference := reference s1 @ [RNum w]\<rparr>))
                                   else if n > 1 then
                                     (case append_references phot_table 0 (reference s1) (heap s1) of
                                        (err, h) \<Rightarrow> (err, s1\<lparr>heap := h\<rparr>))
                                   else (None, s1)))))))"

fun read_frames :: "photutils \<Rightarrow> hdu list \<Rightarrow> lightcurve \<Rightarrow> py_error option \<times> lightcurve" where
  "read_frames lib [] s = (None, s)"
| "read_frames lib (i # rest) s =
     (case read_frame lib i s of
        (Some e, s') \<Rightarrow> (Some e, s')
      | (None, s') \<Rightarrow> read_frames lib rest s')"

definition read_apertures :: "photutils \<Rightarrow> lightcurve \<Rightarrow> outcome \<times> lightcurve" where
  "read_apertures lib s =
     (if target_pos s = PyNone \<or> reference_pos s = PyNone then
        (Printed SetTargetAndReferenceFirst, s)
      else if target s \<noteq> [] then
        (Printed PhotometryAlreadyPerformed, s)
      else
        (case read_frames lib (hdu_list s) s of
           (err, s') \<Rightarrow> (Outcome [] err, s')))"

subsection \<open>\<open>differential_magnitude\<close>\<close>

text \<open>
  The loop of the branch \<open>number_of_references == 1\<close>, over the frame indices. It writes
  to the two copies only. Dividing a list by a list is a \<open>TypeError\<close>.
\<close>

fun single_loop ::
    "nat list \<Rightarrow> real list \<Rightarrow> refitem list \<Rightarrow> real list \<Rightarrow> refitem list \<Rightarrow>
     py_error option \<times> real list \<times> refitem list" where
  "single_loop [] t rf tdm rdm = (None, tdm, rdm)"
| "single_loop (i # rest) t rf tdm rdm =
     (if i < length rf then
        (case rf ! i of
           RNum x \<Rightarrow>
             single_loop rest t rf
               (tdm[i := (- 2.5) * log 10 (t ! i / x)])
               (rdm[i := RNum ((- 2.5) * log 10 (x / x))])
         | RRef a \<Rightarrow> (Some TypeError, tdm, rdm))
      else (Some IndexError, tdm, rdm))"

text \<open>
  \<open>values.append(self.reference[r][i])\<close> for every \<open>r\<close>. Indexing a numpy scalar is an
  \<open>IndexError\<close>, as is an index past the end of a list.
\<close>

fun collect_values :: "(addr \<Rightarrow> real list) \<Rightarrow> refitem list \<Rightarrow> nat \<Rightarrow> py_error + real list" where
  "collect_values h [] i = Inr []"
| "collect_values h (RNum x # rest) i = Inl IndexError"
| "collect_values h (RRef a # rest) i =
     (if i < length (h a) then
        (case collect_values h rest i of
           Inl e \<Rightarrow> Inl e
         | Inr vs \<Rightarrow> Inr (h a ! i # vs))
      else Inl IndexError)"

text \<open>
  \<open>reference_diff_mag[r][i] = (-2.5)*np.log10(self.reference[r][i]/avg_value)\<close> for every
  \<open>r\<close>. \<open>reference_diff_mag\<close> is \<open>self.reference.copy()\<close>, a new outer list of the same
  list objects: the assignment writes into the list \<open>self.reference[r]\<close> itself.
\<close>

fun store_magnitudes ::
    "refitem list \<Rightarrow> nat \<Rightarrow> real \<Rightarrow> (addr \<Rightarrow> real list) \<Rightarrow> py_error option \<times> (addr \<Rightarrow> real list)" where
  "store_magnitudes [] i avg_value h = (None, h)"
| "store_magnitudes (RNum x # rest) i avg_value h = (Some IndexError, h)"
| "store_magnitudes (RRef a # rest) i avg_value h =
     (if i < length (h a) then
        store_magnitudes rest i avg_value
          (h(a := (h a)[i := (- 2.5) * log 10 (h a ! i / avg_value)]))
      else (Some IndexError, h))"

text \<open>
  The loop of the branch \<open>number_of_references > 1\<close>, over the frame indices.
  \<open>sum(values)/len(values)\<close> on an empty list is \<open>0/0\<close> on Python integers. On
  strictly positive flux the average is positive and the two magnitudes are the numbers
  the source stores; on other flux numpy stores an infinity or a NaN, which the real
  numbers here do not show.
\<close>

fun average_loop ::
    "nat list \<Rightarrow> real list \<Rightarrow> refitem list \<Rightarrow> real list \<Rightarrow> (addr \<Rightarrow> real list) \<Rightarrow>
     py_error option \<times> real list \<times> (addr \<Rightarrow> real list)" where
  "average_loop [] t rf tdm h = (None, tdm, h)"
| "average_loop (i # rest) t rf tdm h =
     (case collect_values h rf i of
        Inl e \<Rightarrow> (Some e, tdm, h)
      | Inr values \<Rightarrow>
          if length values = 0 then (Some ZeroDivisionError, tdm, h)
          else
            (let avg_value = sum_list values / real (length values);
                 tdm' = tdm[i := (- 2.5) * log 10 (t ! i / avg_value)]
             in case store_magnitudes rf i avg_value h of
                  (Some e, h') \<Rightarrow> (Some e, tdm', h')
                | (None, h') \<Rightarrow> average_loop rest t rf tdm' h'))"

text \<open>
  \<open>differential_magnitude\<close>. With another \<open>method\<close> the two locals are never bound and
  the assignment \<open>self.target_magnitude = target_diff_mag\<close> raises \<open>UnboundLocalError\<close>.
\<close>

definition differential_magnitude :: "pyval \<Rightarrow> lightcurve \<Rightarrow> outcome \<times> lightcurve" where
  "differential_magnitude method s =
     (if method = PyStr ''average'' then
        (let target_diff_mag = target s;
             reference_diff_mag = reference s
         in case number_of_references s of
              None \<Rightarrow> (Raised AttributeError, s)
            | Some n \<Rightarrow>
                if n = 1 then
                  (case single_loop [0..<length (target s)] (target s) (reference s)
                          target_diff_mag reference_diff_mag of
                     (Some e, tdm, rdm) \<Rightarrow> (Outcome [AverageNotComputed] (Some e), s)
                   | (None, tdm, rdm) \<Rightarrow>
                       (Outcome [AverageNotComputed] None,
                        s\<lparr>target_magnitude := Some tdm, reference_magnitude := Some rdm\<rparr>))
                else if n > 1 then
                  (case average_loop [0..<length (target s)] (target s) (reference s)
                          target_diff_mag (heap s) of
                     (Some e, tdm, h) \<Rightarrow> (Raised e, s\<lparr>heap := h\<rparr>)
                   | (None, tdm, h) \<Rightarrow>
                       (Done,
                        s\<lparr>heap := h, target_magnitude := Some tdm,
                          reference_magnitude := Some reference_diff_mag\<rparr>))
                else
                  (Done,
                   s\<lparr>target_magnitude := Some target_diff_mag,
                     reference_magnitude := Some reference_diff_mag\<rparr>))
      else (Raised UnboundLocalError, s))"


section \<open>Example objects\<close>

text \<open>
  A stand-in for photutils that accepts every aperture and returns, as the sum of an
  aperture, the first coordinate of its position; one frame; and the objects the calls
  below build from them. They are the concrete inputs of the examples that follow.
\<close>

fun first_coordinate :: "pyval \<Rightarrow> real" where
  "first_coordinate (PyTuple (PyNum x # rest)) = x"
| "first_coordinate v = 0"

definition example_lib :: photutils where
  "example_lib =
     \<lparr> aperture_init = (\<lambda>position radius. None),
       aperture_photometry = (\<lambda>image ap.
          Inr (case ap_positions ap of
                 PyList ps \<Rightarrow> map first_coordinate ps
               | p \<Rightarrow> [first_coordinate p])) \<rparr>"

definition example_frame :: hdu where
  "example_frame = \<lparr> header = [(''JD'', PyNum 2459062)], data = [[1, 2], [3, 4]] \<rparr>"

definition example_new :: lightcurve where
  "example_new = new_lightcurve [''/d/f1''] [example_frame] [PyNum 2459062]"

text \<open>
  One frame, target at \<open>(10, 0)\<close>, one reference at \<open>(100, 0)\<close>, after
  \<open>set_target\<close>, \<open>set_reference\<close>, \<open>read_apertures\<close>.
\<close>

definition example_single :: lightcurve where
  "example_single =
     snd (read_apertures example_lib
       (snd (set_reference example_lib (PyTuple [PyNum 100, PyNum 0]) (PyNum 8) PyNone
         (snd (set_target example_lib (PyTuple [PyNum 10, PyNum 0]) (PyNum 8) (PyStr ''Lx Ser'') example_new)))))"

text \<open>The same with two references, at \<open>(10, 0)\<close> and \<open>(190, 0)\<close>, and the target at \<open>(100, 0)\<close>.\<close>

definition example_double :: lightcurve where
  "example_double =
     snd (read_apertures example_lib
       (snd (set_reference example_lib (PyList [PyTuple [PyNum 10, PyNum 0], PyTuple [PyNum 190, PyNum 0]]) (PyNum 8) PyNone
         (snd (set_target example_lib (PyTuple [PyNum 100, PyNum 0]) (PyNum 8) (PyStr ''Lx Ser'') example_new)))))"

text \<open>The same calls on a catalog without frames.\<close>

definition example_empty :: lightcurve where
  "example_empty =
     snd (read_apertures example_lib
       (snd (set_reference example_lib (PyTuple [PyNum 100, PyNum 0]) (PyNum 8) PyNone
         (snd (set_target example_lib (PyTuple [PyNum 10, PyNum 0]) (PyNum 8) (PyStr ''Lx Ser'')
            (new_lightcurve [] [] []))))))"

text \<open>\<open>example_single\<close> after \<open>set_target\<close> alone and a second \<open>read_apertures\<close>.\<close>

definition example_reextracted :: lightcurve where
  "example_reextracted =
     snd (read_apertures example_lib
       (snd (set_target example_lib (PyTuple [PyNum 10, PyNum 0]) (PyNum 8) PyNone
          example_single)))"

text \<open>\<open>example_double\<close> after \<open>differential_magnitude('average')\<close>.\<close>

definition example_computed :: lightcurve where
  "example_computed = snd (differential_magnitude (PyStr ''average'') example_double)"

text \<open>
  A directory \<open>/d\<close> in which \<open>glob\<close> finds \<open>f2\<close>, \<open>f10\<close>, \<open>f1\<close>, in that order; every
  file opens, and its header names the file. \<open>example_catalog\<close> is the object
  \<open>__init__\<close> builds there.
\<close>

definition example_fs :: filesys where
  "example_fs =
     \<lparr> chdir = (\<lambda>d. None),
       glob = (\<lambda>pattern. [''/d/f2'', ''/d/f10'', ''/d/f1'']),
       fits_open = (\<lambda>p. Inr \<lparr> header = [(''FILE'', PyStr p), (''JD'', PyNum 2459062)],
                                data = [] \<rparr>) \<rparr>"

definition example_catalog :: lightcurve where
  "example_catalog =
     new_lightcurve [''/d/f1'', ''/d/f10'', ''/d/f2'']
       [\<lparr> header = [(''FILE'', PyStr ''/d/f1''), (''JD'', PyNum 2459062)], data = [] \<rparr>,
        \<lparr> header = [(''FILE'', PyStr ''/d/f10''), (''JD'', PyNum 2459062)], data = [] \<rparr>,
        \<lparr> header = [(''FILE'', PyStr ''/d/f2''), (''JD'', PyNum 2459062)], data = [] \<rparr>]
       [PyNum 2459062, PyNum 2459062, PyNum 2459062]"

section \<open>Auxiliary facts\<close>

subsection \<open>The example objects, evaluated\<close>

lemmas example_defs =
  example_new_def new_lightcurve_def set_target_def set_reference_def
  read_apertures_def read_frame_def example_lib_def table_row_def new_lists_def example_frame_def

lemma example_single_fields:
  "target example_single = [10]" "reference example_single = [RNum 100]"
  "number_of_references example_single = Some 1"
  "hdu_list example_single = [example_frame]"
  by (simp_all add: example_single_def example_defs)

lemma example_single_configured:
  "target_pos example_single = PyTuple [PyNum 10, PyNum 0]"
  "reference_pos example_single = PyTuple [PyNum 100, PyNum 0]"
  by (simp_all add: example_single_def example_defs)

lemma example_single_next_addr: "next_addr example_single = 0"
  by (simp add: example_single_def example_defs)

lemma example_double_fields:
  "target example_double = [100]" "reference example_double = [RRef 0, RRef 1]"
  "number_of_references example_double = Some 2"
  "hdu_list example_double = [example_frame]"
  "heap example_double 0 = [10]" "heap example_double (Suc 0) = [190]"
  by (simp_all add: example_double_def example_defs upt_rec)

lemma example_empty_fields:
  "target example_empty = []" "reference example_empty = []" "hdu_list example_empty = []"
  "target_pos example_empty = PyTuple [PyNum 10, PyNum 0]"
  "reference_pos example_empty = PyTuple [PyNum 100, PyNum 0]"
  by (simp_all add: example_empty_def example_defs)

lemma log10_tenth: "log 10 (1 / 10) = - 1"
  by (simp add: log_divide)

lemma log10_19: "0 < log 10 (19 / 10)" "log 10 (19 / 10) < 1"
  by simp_all

lemma example_computed_fields:
  "target example_computed = [100]" "reference example_computed = [RRef 0, RRef 1]"
  "number_of_references example_computed = Some 2"
  "heap example_computed 0 = [5 / 2]"
  "heap example_computed (Suc 0) = [(- 2.5) * log 10 (19 / 10)]"
  "target_magnitude example_computed = Some [0]"
  "reference_magnitude example_computed = Some [RRef 0, RRef 1]"
  "fst (differential_magnitude (PyStr ''average'') example_double) = Done"
  by (simp_all add: example_computed_def differential_magnitude_def example_double_fields
      log10_tenth)

lemma example_catalog_init: "init example_fs ''/d/*'' = Inr example_catalog"
  by (simp add: init_def example_fs_def example_catalog_def dirname_def)

subsection \<open>The loop of the single-reference branch\<close>

text \<open>
  On a flat reference series the loop never raises; it overwrites exactly the indices it
  visits. The two copies are generalised, since every iteration changes them.
\<close>

lemma single_loop_flat:
  assumes "\<forall>i\<in>set js. i < length rs"
  shows "\<exists>tdm' rdm'. single_loop js t (map RNum rs) tdm rdm = (None, tdm', rdm')
     \<and> length tdm' = length tdm \<and> length rdm' = length rdm
     \<and> (\<forall>j<length tdm. tdm' ! j =
           (if j \<in> set js then (- 2.5) * log 10 (t ! j / rs ! j) else tdm ! j))
     \<and> (\<forall>j<length rdm. rdm' ! j =
           (if j \<in> set js then RNum ((- 2.5) * log 10 (rs ! j / rs ! j)) else rdm ! j))"
  using assms
proof (induction js arbitrary: tdm rdm)
  case Nil
  then show ?case by simp
next
  case (Cons i js)
  let ?tdm = "tdm[i := (- 2.5) * log 10 (t ! i / rs ! i)]"
  let ?rdm = "rdm[i := RNum ((- 2.5) * log 10 (rs ! i / rs ! i))]"
  from Cons.prems have i: "i < length rs" and js: "\<forall>i\<in>set js. i < length rs"
    by simp_all
  from Cons.IH [OF js, of ?tdm ?rdm] obtain tdm' rdm' where
    run: "single_loop js t (map RNum rs) ?tdm ?rdm = (None, tdm', rdm')"
    and lt: "length tdm' = length tdm" and lr: "length rdm' = length rdm"
    and t: "\<forall>j<length tdm. tdm' ! j =
           (if j \<in> set js then (- 2.5) * log 10 (t ! j / rs ! j) else ?tdm ! j)"
    and r: "\<forall>j<length rdm. rdm' ! j =
           (if j \<in> set js then RNum ((- 2.5) * log 10 (rs ! j / rs ! j)) else ?rdm ! j)"
    by auto
  have "single_loop (i # js) t (map RNum rs) tdm rdm = (None, tdm', rdm')"
    using i run by simp
  moreover have "\<forall>j<length tdm. tdm' ! j =
           (if j \<in> set (i # js) then (- 2.5) * log 10 (t ! j / rs ! j) else tdm ! j)"
    using t by (auto simp: nth_list_update)
  moreover have "\<forall>j<length rdm. rdm' ! j =
           (if j \<in> set (i # js) then RNum ((- 2.5) * log 10 (rs ! j / rs ! j)) else rdm ! j)"
    using r by (auto simp: nth_list_update)
  ultimately show ?case using lt lr by blast
qed

lemma single_loop_all:
  assumes "length rs = length t" and "\<forall>x\<in>set rs. x \<noteq> 0"
  shows "single_loop [0..<length t] t (map RNum rs) t (map RNum rs) =
     (None, map (\<lambda>i. (- 2.5) * log 10 (t ! i / rs ! i)) [0..<length t],
      replicate (length rs) (RNum 0))"
proof -
  have "\<forall>i\<in>set [0..<length t]. i < length rs"
    using assms(1) by simp
  from single_loop_flat [OF this, of t t "map RNum rs"] obtain tdm' rdm' where
    run: "single_loop [0..<length t] t (map RNum rs) t (map RNum rs) = (None, tdm', rdm')"
    and lt: "length tdm' = length t" and lr: "length rdm' = length rs"
    and t: "\<forall>j<length t. tdm' ! j = (- 2.5) * log 10 (t ! j / rs ! j)"
    and r: "\<forall>j<length rs. rdm' ! j = RNum ((- 2.5) * log 10 (rs ! j / rs ! j))"
    using assms(1) by auto
  have "tdm' = map (\<lambda>i. (- 2.5) * log 10 (t ! i / rs ! i)) [0..<length t]"
    using lt t by (intro nth_equalityI) simp_all
  moreover have "rdm' = replicate (length rs) (RNum 0)"
  proof (intro nth_equalityI)
    show "length rdm' = length (replicate (length rs) (RNum 0))"
      using lr by simp
  next
    fix j assume "j < length rdm'"
    then have j: "j < length rs" using lr by simp
    then have "rs ! j \<noteq> 0" using assms(2) by simp
    then show "rdm' ! j = replicate (length rs) (RNum 0) ! j"
      using r j by simp
  qed
  ultimately show ?thesis using run by simp
qed

subsection \<open>The loop of the multi-reference branch\<close>

text \<open>
  When the elements of \<open>self.reference\<close> are distinct list objects, each long enough,
  reading a frame's values and storing the frame's magnitudes succeed, and the store
  changes in column \<open>i\<close> of those lists only.
\<close>

lemma collect_values_lists:
  assumes "\<forall>a\<in>set as. i < length (h a)"
  shows "collect_values h (map RRef as) i = Inr (map (\<lambda>a. h a ! i) as)"
  using assms by (induction as) simp_all

lemma store_magnitudes_lists:
  assumes "distinct as" and "\<forall>a\<in>set as. i < length (h a)"
  shows "store_magnitudes (map RRef as) i v h =
     (None, \<lambda>a. if a \<in> set as then (h a)[i := (- 2.5) * log 10 (h a ! i / v)] else h a)"
  using assms
proof (induction as arbitrary: h)
  case Nil
  then show ?case by simp
next
  case (Cons a as)
  let ?h = "h(a := (h a)[i := (- 2.5) * log 10 (h a ! i / v)])"
  from Cons.prems have a: "i < length (h a)" and na: "a \<notin> set as" and d: "distinct as"
    by simp_all
  have "\<forall>b\<in>set as. i < length (?h b)"
    using Cons.prems by auto
  from Cons.IH [OF d this]
  have "store_magnitudes (map RRef as) i v ?h =
     (None, \<lambda>b. if b \<in> set as then (?h b)[i := (- 2.5) * log 10 (?h b ! i / v)] else ?h b)" .
  moreover have "(\<lambda>b. if b \<in> set as then (?h b)[i := (- 2.5) * log 10 (?h b ! i / v)] else ?h b)
     = (\<lambda>b. if b \<in> set (a # as) then (h b)[i := (- 2.5) * log 10 (h b ! i / v)] else h b)"
    using na by (intro ext) auto
  ultimately show ?case using a by simp
qed

text \<open>
  The outer loop, over distinct frame indices. Frame \<open>j\<close> is averaged before column
  \<open>j\<close> is overwritten, so the average is the one of the store the loop started from.
  \<open>avg\<close> stands for the average so that the simplifier leaves it alone.
\<close>

lemma average_loop_lists:
  fixes avg :: "(addr \<Rightarrow> real list) \<Rightarrow> nat \<Rightarrow> real"
  assumes avg: "\<And>h j. avg h j = sum_list (map (\<lambda>a. h a ! j) as) / real (length as)"
    and "distinct as" and "as \<noteq> []" and "distinct js"
    and "\<forall>a\<in>set as. \<forall>i\<in>set js. i < length (h a)"
  shows "\<exists>tdm' h'. average_loop js t (map RRef as) tdm h = (None, tdm', h')
     \<and> length tdm' = length tdm
     \<and> (\<forall>j<length tdm. tdm' ! j =
           (if j \<in> set js then (- 2.5) * log 10 (t ! j / avg h j) else tdm ! j))
     \<and> (\<forall>a. a \<notin> set as \<longrightarrow> h' a = h a)
     \<and> (\<forall>a\<in>set as. length (h' a) = length (h a)
           \<and> (\<forall>j<length (h a). h' a ! j =
                 (if j \<in> set js then (- 2.5) * log 10 (h a ! j / avg h j) else h a ! j)))"
  using assms(4,5)
proof (induction js arbitrary: tdm h)
  case Nil
  then show ?case by simp
next
  case (Cons i js)
  define tdm1 where "tdm1 = tdm[i := (- 2.5) * log 10 (t ! i / avg h i)]"
  define h1 where
    "h1 = (\<lambda>a. if a \<in> set as then (h a)[i := (- 2.5) * log 10 (h a ! i / avg h i)] else h a)"
  from Cons.prems have i: "\<forall>a\<in>set as. i < length (h a)" and ni: "i \<notin> set js"
    and d: "distinct js" and js: "\<forall>a\<in>set as. \<forall>i\<in>set js. i < length (h a)"
    by simp_all
  have step: "average_loop (i # js) t (map RRef as) tdm h = average_loop js t (map RRef as) tdm1 h1"
    unfolding tdm1_def h1_def avg
    using collect_values_lists [OF i] store_magnitudes_lists [OF assms(2) i] assms(3)
    by simp
  have len: "length (h1 a) = length (h a)" for a
    by (simp add: h1_def)
  have outside: "h1 a = h a" if "a \<notin> set as" for a
    using that by (simp add: h1_def)
  have same: "h1 a ! j = h a ! j" if "j \<noteq> i" for a j
    using that by (simp add: h1_def)
  have here: "h1 a ! i = (- 2.5) * log 10 (h a ! i / avg h i)" if "a \<in> set as" for a
    using that i by (simp add: h1_def)
  have avg1: "avg h1 j = avg h j" if "j \<noteq> i" for j
  proof -
    have "map (\<lambda>a. h1 a ! j) as = map (\<lambda>a. h a ! j) as"
      using same [OF that] by simp
    then show ?thesis by (simp only: avg)
  qed
  have js1: "\<forall>a\<in>set as. \<forall>i\<in>set js. i < length (h1 a)"
    using js len by simp
  from Cons.IH [OF d js1, of tdm1] obtain tdm' h' where
    run: "average_loop js t (map RRef as) tdm1 h1 = (None, tdm', h')"
    and lt: "length tdm' = length tdm1"
    and t: "\<forall>j<length tdm1. tdm' ! j =
           (if j \<in> set js then (- 2.5) * log 10 (t ! j / avg h1 j) else tdm1 ! j)"
    and out: "\<forall>a. a \<notin> set as \<longrightarrow> h' a = h1 a"
    and inn: "\<forall>a\<in>set as. length (h' a) = length (h1 a)
           \<and> (\<forall>j<length (h1 a). h' a ! j =
                 (if j \<in> set js then (- 2.5) * log 10 (h1 a ! j / avg h1 j) else h1 a ! j))"
    by blast
  have lt1: "length tdm1 = length tdm"
    by (simp add: tdm1_def)
  have t': "\<forall>j<length tdm. tdm' ! j =
           (if j \<in> set (i # js) then (- 2.5) * log 10 (t ! j / avg h j) else tdm ! j)"
  proof (intro allI impI)
    fix j assume j: "j < length tdm"
    then have tj: "tdm' ! j =
        (if j \<in> set js then (- 2.5) * log 10 (t ! j / avg h1 j) else tdm1 ! j)"
      using t lt1 by simp
    show "tdm' ! j = (if j \<in> set (i # js) then (- 2.5) * log 10 (t ! j / avg h j) else tdm ! j)"
    proof (cases "j = i")
      case True
      then show ?thesis using tj j ni by (simp add: tdm1_def)
    next
      case False
      then show ?thesis using tj avg1 [OF False] by (simp add: tdm1_def)
    qed
  qed
  have out': "\<forall>a. a \<notin> set as \<longrightarrow> h' a = h a"
    using out outside by simp
  have inn': "\<forall>a\<in>set as. length (h' a) = length (h a)
           \<and> (\<forall>j<length (h a). h' a ! j =
                 (if j \<in> set (i # js) then (- 2.5) * log 10 (h a ! j / avg h j) else h a ! j))"
  proof (intro ballI conjI allI impI)
    fix a assume a: "a \<in> set as"
    show "length (h' a) = length (h a)"
      using inn a len by simp
    fix j assume j: "j < length (h a)"
    have hj: "h' a ! j =
        (if j \<in> set js then (- 2.5) * log 10 (h1 a ! j / avg h1 j) else h1 a ! j)"
      using inn a j len by simp
    show "h' a ! j =
        (if j \<in> set (i # js) then (- 2.5) * log 10 (h a ! j / avg h j) else h a ! j)"
    proof (cases "j = i")
      case True
      then show ?thesis using hj ni here [OF a] by simp
    next
      case False
      then show ?thesis using hj same [OF False] avg1 [OF False] by simp
    qed
  qed
  show ?case
    using step run lt lt1 t' out' inn' by simp
qed

lemma sum_list_map_nth:
  fixes f :: "'a \<Rightarrow> real"
  shows "sum_list (map f as) = (\<Sum>r<length as. f (as ! r))"
proof -
  have "sum_list (map f as) = (\<Sum>r = 0..<length as. map f as ! r)"
    using sum_list_sum_nth [of "map f as"] by simp
  also have "\<dots> = (\<Sum>r = 0..<length as. f (as ! r))"
    by (intro sum.cong refl) simp
  finally show ?thesis by (simp add: atLeast0LessThan)
qed

subsection \<open>The catalog is never written after \<open>__init__\<close>\<close>

lemma load_frames_in_order:
  assumes "load_frames fs fl = Inr (hs, jds)"
  shows "map (fits_open fs) fl = map Inr hs"
  using assms
  by (induction fl arbitrary: hs jds) (auto split: sum.splits option.splits)

lemma set_target_catalog:
  "fits_list (snd (set_target lib position radius name s)) = fits_list s"
  "hdu_list (snd (set_target lib position radius name s)) = hdu_list s"
  by (simp_all add: set_target_def Let_def split: option.splits)

lemma set_reference_catalog:
  "fits_list (snd (set_reference lib position radius name s)) = fits_list s"
  "hdu_list (snd (set_reference lib position radius name s)) = hdu_list s"
  by (simp_all add: set_reference_def new_lists_def Let_def
      split: option.splits pyval.splits list.splits sum.splits)

lemma read_frame_catalog:
  "fits_list (snd (read_frame lib i s)) = fits_list s"
  "hdu_list (snd (read_frame lib i s)) = hdu_list s"
  by (simp_all add: read_frame_def Let_def split: option.splits sum.splits prod.splits)

lemma read_frames_catalog:
  "fits_list (snd (read_frames lib hs s)) = fits_list s
   \<and> hdu_list (snd (read_frames lib hs s)) = hdu_list s"
proof (induction hs arbitrary: s)
  case Nil
  then show ?case by simp
next
  case (Cons i hs)
  show ?case
  proof (cases "read_frame lib i s")
    case (Pair err s1)
    have s1: "fits_list s1 = fits_list s" "hdu_list s1 = hdu_list s"
      using read_frame_catalog [of lib i s] Pair by simp_all
    show ?thesis
    proof (cases err)
      case None
      then show ?thesis using Pair s1 Cons.IH [of s1] by simp
    next
      case (Some e)
      then show ?thesis using Pair s1 by simp
    qed
  qed
qed

lemma read_apertures_catalog:
  "fits_list (snd (read_apertures lib s)) = fits_list s"
  "hdu_list (snd (read_apertures lib s)) = hdu_list s"
  using read_frames_catalog [of lib "hdu_list s" s]
  by (auto simp: read_apertures_def split: prod.splits)

lemma differential_magnitude_catalog:
  "fits_list (snd (differential_magnitude method s)) = fits_list s"
  "hdu_list (snd (differential_magnitude method s)) = hdu_list s"
  by (simp_all add: differential_magnitude_def Let_def split: option.splits prod.splits)

subsection \<open>What a successful extraction leaves\<close>

text \<open>
  With several references, each a list object of its own, a pass of \<open>read_apertures\<close>
  that raises nothing appends one value per frame to the target series and to every
  reference series. Started on empty series (\<open>set_reference\<close> has just made them), it
  leaves the state the theorem for C1 assumes.
\<close>

lemma append_references_lengths:
  assumes "distinct as" and "append_references tbl r (map RRef as) h = (None, h')"
  shows "(\<forall>a\<in>set as. length (h' a) = Suc (length (h a))) \<and> (\<forall>a. a \<notin> set as \<longrightarrow> h' a = h a)"
  using assms
proof (induction as arbitrary: r h)
  case Nil
  then show ?case by simp
next
  case (Cons a as)
  from Cons.prems(2) obtain v where
    v: "table_row tbl r = Inr v"
    and run: "append_references tbl (Suc r) (map RRef as) (h(a := h a @ [v])) = (None, h')"
    by (auto split: sum.splits)
  from Cons.prems(1) have na: "a \<notin> set as" and d: "distinct as"
    by simp_all
  from Cons.IH [OF d run]
  have inn: "\<forall>b\<in>set as. length (h' b) = Suc (length ((h(a := h a @ [v])) b))"
    and out: "\<forall>b. b \<notin> set as \<longrightarrow> h' b = (h(a := h a @ [v])) b"
    by blast+
  have "length (h' a) = Suc (length (h a))"
    using out na by simp
  moreover have "\<forall>b\<in>set as. length (h' b) = Suc (length (h b))"
    using inn na by auto
  moreover have "\<forall>b. b \<notin> set (a # as) \<longrightarrow> h' b = h b"
    using out by simp
  ultimately show ?case by simp
qed

lemma read_frame_lists:
  assumes "number_of_references s = Some R" and "1 < R"
    and "reference s = map RRef as" and "distinct as"
    and "read_frame lib i s = (None, s')"
  shows "length (target s') = Suc (length (target s))
     \<and> (\<forall>a\<in>set as. length (heap s' a) = Suc (length (heap s a)))
     \<and> number_of_references s' = Some R \<and> reference s' = map RRef as
     \<and> hdu_list s' = hdu_list s"
proof -
  from assms(1,2,5) obtain v phot_table h where
    s': "s' = s\<lparr>target := target s @ [v], heap := h\<rparr>"
    and run: "append_references phot_table 0 (reference s) (heap s) = (None, h)"
    by (auto simp: read_frame_def Let_def split: option.splits sum.splits prod.splits if_splits)
  from append_references_lengths [OF assms(4) run [unfolded assms(3)]]
  have "\<forall>a\<in>set as. length (h a) = Suc (length (heap s a))"
    by blast
  then show ?thesis
    using assms(1,3) by (simp add: s')
qed

lemma read_frames_lists:
  assumes "number_of_references s = Some R" and "1 < R"
    and "reference s = map RRef as" and "distinct as"
    and "read_frames lib hs s = (None, s')"
  shows "length (target s') = length (target s) + length hs
     \<and> (\<forall>a\<in>set as. length (heap s' a) = length (heap s a) + length hs)
     \<and> number_of_references s' = Some R \<and> reference s' = map RRef as
     \<and> hdu_list s' = hdu_list s"
  using assms(1,3,5)
proof (induction hs arbitrary: s)
  case Nil
  then show ?case by simp
next
  case (Cons i hs)
  from Cons.prems(3) obtain s1 where
    one: "read_frame lib i s = (None, s1)" and rest: "read_frames lib hs s1 = (None, s')"
    by (auto split: prod.splits option.splits)
  from read_frame_lists [OF Cons.prems(1) assms(2) Cons.prems(2) assms(4) one]
  have s1: "length (target s1) = Suc (length (target s))"
    "\<forall>a\<in>set as. length (heap s1 a) = Suc (length (heap s a))"
    "number_of_references s1 = Some R" "reference s1 = map RRef as" "hdu_list s1 = hdu_list s"
    by blast+
  from Cons.IH [OF s1(3,4) rest] show ?case
    using s1(1,2,5) by simp
qed

lemma successful_extraction_lists:
  assumes "number_of_references s = Some R" and "1 < R"
    and "reference s = map RRef as" and "distinct as"
    and "\<forall>a\<in>set as. heap s a = []"
    and "read_apertures lib s = (Done, s')"
  shows "number_of_references s' = Some R \<and> reference s' = map RRef as
     \<and> length (target s') = length (hdu_list s')
     \<and> (\<forall>a\<in>set as. length (heap s' a) = length (hdu_list s'))"
proof -
  from assms(6) have empty: "target s = []"
    and run: "read_frames lib (hdu_list s) s = (None, s')"
    by (auto simp: read_apertures_def split: if_splits prod.splits)
  from read_frames_lists [OF assms(1-4) run] show ?thesis
    using empty assms(5) by simp
qed

text \<open>
  \<open>set_reference\<close> with a list makes such series, and \<open>set_target\<close> does not touch them.
  So a pass of \<open>read_apertures\<close> that raises nothing, after \<open>set_reference\<close> with a list
  of several positions and \<open>set_target\<close>, leaves \<open>R\<close> distinct reference series and a
  target series, each with one value per frame.
\<close>

lemma set_reference_list_configures:
  assumes "set_reference lib (PyList ps) radius name s = (Done, s')"
  shows "number_of_references s' = Some (length ps)
     \<and> reference s' = map RRef [next_addr s ..< next_addr s + length ps]
     \<and> (\<forall>a\<in>set [next_addr s ..< next_addr s + length ps]. heap s' a = [])"
  using assms
  by (auto simp: set_reference_def new_lists_def Let_def
      split: list.splits sum.splits option.splits if_splits)

lemma set_target_keeps_reference:
  "number_of_references (snd (set_target lib position radius name s)) = number_of_references s"
  "reference (snd (set_target lib position radius name s)) = reference s"
  "heap (snd (set_target lib position radius name s)) = heap s"
  by (simp_all add: set_target_def Let_def split: option.splits)

lemma extraction_after_configuration:
  assumes "set_reference lib (PyList ps) radius name s0 = (Done, s1)"
    and "1 < length ps"
    and "read_apertures lib (snd (set_target lib position radius' name' s1)) = (Done, s)"
    and "as = [next_addr s0 ..< next_addr s0 + length ps]"
  shows "number_of_references s = Some (length ps) \<and> reference s = map RRef as
     \<and> length as = length ps \<and> distinct as
     \<and> length (target s) = length (hdu_list s)
     \<and> (\<forall>a\<in>set as. length (heap s a) = length (hdu_list s))"
proof -
  let ?s2 = "snd (set_target lib position radius' name' s1)"
  from set_reference_list_configures [OF assms(1)]
  have n: "number_of_references ?s2 = Some (length ps)"
    and r: "reference ?s2 = map RRef as"
    and h: "\<forall>a\<in>set as. heap ?s2 a = []"
    by (simp_all add: set_target_keeps_reference assms(4))
  have d: "distinct as"
    by (simp add: assms(4))
  from successful_extraction_lists [OF n assms(2) r d h assms(3)] show ?thesis
    using d by (simp add: assms(4))
qed

section \<open>Properties\<close>

subsection \<open>C1: magnitudes against the average of several references\<close>

text \<open>
  C1. Let \<open>R > 1\<close> references be configured and extracted: \<open>self.reference\<close> is a list of
  \<open>R\<close> distinct list objects, and the target series and each of them hold one value per
  frame (\<open>extraction_after_configuration\<close> shows that extraction leaves this state). Let
  every flux value, of the target and of every reference, be strictly positive: there the
  quotients and logarithms of the model are those numpy computes, up to rounding. Then
  every frame's average is strictly positive, and \<open>differential_magnitude('average')\<close>
  returns normally and sets
  \<^item> \<open>target_magnitude[i] = -2.5 * log10(target[i] / avg[i])\<close>, where \<open>avg[i]\<close> is the
    arithmetic mean over \<open>r\<close> of \<open>reference[r][i]\<close>, for every frame \<open>i\<close>: a series of
    length \<open>frameCount\<close>;
  \<^item> \<open>reference_magnitude\<close> to a list of the \<open>R\<close> list objects, the one of reference \<open>r\<close>
    holding \<open>-2.5 * log10(reference[r][i] / avg[i])\<close> at every frame \<open>i\<close>: \<open>R\<close> series of
    length \<open>frameCount\<close>.
  \<open>target\<close> and \<open>reference\<close> on the right are the flux series before the call. The list
  objects of \<open>reference_magnitude\<close> are those of \<open>self.reference\<close>, as the stated
  result shows.
\<close>

theorem average_magnitudes:
  assumes "number_of_references s = Some R" and "1 < R"
    and "reference s = map RRef as" and "length as = R" and "distinct as"
    and "length (target s) = length (hdu_list s)"
    and "\<forall>a\<in>set as. length (heap s a) = length (hdu_list s)"
    and "\<forall>x\<in>set (target s). 0 < x"
    and "\<forall>a\<in>set as. \<forall>x\<in>set (heap s a). 0 < x"
  shows "(\<forall>i<length (hdu_list s). 0 < (\<Sum>r<R. heap s (as ! r) ! i) / real R)
   \<and> differential_magnitude (PyStr ''average'') s =
     (Done,
      s\<lparr>heap := (\<lambda>a. if a \<in> set as
                    then map (\<lambda>i. (- 2.5) * log 10 (heap s a ! i /
                                  ((\<Sum>r<R. heap s (as ! r) ! i) / real R)))
                           [0..<length (hdu_list s)]
                    else heap s a),
        target_magnitude :=
          Some (map (\<lambda>i. (- 2.5) * log 10 (target s ! i /
                              ((\<Sum>r<R. heap s (as ! r) ! i) / real R)))
                  [0..<length (hdu_list s)]),
        reference_magnitude := Some (map RRef as)\<rparr>)"
proof -
  define n where "n = length (hdu_list s)"
  define avg where
    "avg = (\<lambda>(h :: addr \<Rightarrow> real list) j. sum_list (map (\<lambda>a. h a ! j) as) / real (length as))"
  have avg: "avg h j = sum_list (map (\<lambda>a. h a ! j) as) / real (length as)" for h j
    by (simp add: avg_def)
  have mean: "avg (heap s) j = (\<Sum>r<R. heap s (as ! r) ! j) / real R" for j
    using sum_list_map_nth [of "\<lambda>a. heap s a ! j" as] assms(4) by (simp add: avg_def)
  have ne: "as \<noteq> []"
    using assms(2,4) by auto
  have inr: "\<forall>a\<in>set as. \<forall>i\<in>set [0..<length (target s)]. i < length (heap s a)"
    using assms(6,7) by simp
  from average_loop_lists [of avg as "[0..<length (target s)]" "heap s" "target s" "target s",
      OF avg assms(5) ne _ inr]
  obtain tdm' h' where
    run: "average_loop [0..<length (target s)] (target s) (map RRef as) (target s) (heap s)
            = (None, tdm', h')"
    and lt: "length tdm' = length (target s)"
    and t: "\<forall>j<length (target s). tdm' ! j = (- 2.5) * log 10 (target s ! j / avg (heap s) j)"
    and out: "\<forall>a. a \<notin> set as \<longrightarrow> h' a = heap s a"
    and inn: "\<forall>a\<in>set as. length (h' a) = length (heap s a)
           \<and> (\<forall>j<length (heap s a). h' a ! j =
                 (if j \<in> set [0..<length (target s)]
                  then (- 2.5) * log 10 (heap s a ! j / avg (heap s) j) else heap s a ! j))"
    by auto
  have tm: "tdm' = map (\<lambda>i. (- 2.5) * log 10 (target s ! i /
                              ((\<Sum>r<R. heap s (as ! r) ! i) / real R))) [0..<n]"
    using lt t assms(6) unfolding n_def mean by (intro nth_equalityI) simp_all
  have hm: "h' = (\<lambda>a. if a \<in> set as
                    then map (\<lambda>i. (- 2.5) * log 10 (heap s a ! i /
                                  ((\<Sum>r<R. heap s (as ! r) ! i) / real R))) [0..<n]
                    else heap s a)"
  proof (intro ext)
    fix a
    show "h' a = (if a \<in> set as
                    then map (\<lambda>i. (- 2.5) * log 10 (heap s a ! i /
                                  ((\<Sum>r<R. heap s (as ! r) ! i) / real R))) [0..<n]
                    else heap s a)"
    proof (cases "a \<in> set as")
      case False
      then show ?thesis using out by simp
    next
      case True
      have la: "length (heap s a) = n"
        using True assms(7) by (simp add: n_def)
      have l: "length (h' a) = n"
        using inn True la by simp
      have "\<forall>j<n. h' a ! j = (- 2.5) * log 10 (heap s a ! j / avg (heap s) j)"
        using inn True la assms(6) by (simp add: n_def)
      then have "h' a = map (\<lambda>i. (- 2.5) * log 10 (heap s a ! i /
                                  ((\<Sum>r<R. heap s (as ! r) ! i) / real R))) [0..<n]"
        using l unfolding mean by (intro nth_equalityI) simp_all
      then show ?thesis using True by simp
    qed
  qed
  have "1 < R" by fact
  then have branch: "R \<noteq> 1" "0 < R" by simp_all
  have positive: "\<forall>i<length (hdu_list s). 0 < (\<Sum>r<R. heap s (as ! r) ! i) / real R"
  proof (intro allI impI)
    fix i assume i: "i < length (hdu_list s)"
    have "0 < heap s (as ! r) ! i" if "r \<in> {..<R}" for r
    proof -
      from that have a: "as ! r \<in> set as"
        using assms(4) by simp
      then have "heap s (as ! r) ! i \<in> set (heap s (as ! r))"
        using assms(7) i by simp
      then show ?thesis
        using assms(9) a by blast
    qed
    moreover have "{..<R} \<noteq> {}"
      using branch(2) by auto
    ultimately have "0 < (\<Sum>r<R. heap s (as ! r) ! i)"
      by (intro sum_pos) simp_all
    then show "0 < (\<Sum>r<R. heap s (as ! r) ! i) / real R"
      using branch(2) by simp
  qed
  have "differential_magnitude (PyStr ''average'') s =
     (Done,
      s\<lparr>heap := (\<lambda>a. if a \<in> set as
                    then map (\<lambda>i. (- 2.5) * log 10 (heap s a ! i /
                                  ((\<Sum>r<R. heap s (as ! r) ! i) / real R)))
                           [0..<length (hdu_list s)]
                    else heap s a),
        target_magnitude :=
          Some (map (\<lambda>i. (- 2.5) * log 10 (target s ! i /
                              ((\<Sum>r<R. heap s (as ! r) ! i) / real R)))
                  [0..<length (hdu_list s)]),
        reference_magnitude := Some (map RRef as)\<rparr>)"
    using assms(1,3) branch run
    unfolding tm hm n_def [symmetric]
    by (simp add: differential_magnitude_def n_def tm hm)
  with positive show ?thesis
    by (rule conjI)
qed

text \<open>
  The theorem at \<open>example_double\<close>: target flux 100, references 10 and 190, average 100.
\<close>

theorem average_magnitudes_witness:
  "target example_double = [100] \<and> heap example_double 0 = [10] \<and> heap example_double 1 = [190]
   \<and> (\<Sum>r<2. heap example_double ([0, 1] ! r) ! 0) / real 2 = 100
   \<and> fst (differential_magnitude (PyStr ''average'') example_double) = Done
   \<and> target_magnitude (snd (differential_magnitude (PyStr ''average'') example_double)) = Some [0]
   \<and> reference_magnitude (snd (differential_magnitude (PyStr ''average'') example_double))
       = Some [RRef 0, RRef 1]
   \<and> heap (snd (differential_magnitude (PyStr ''average'') example_double)) 0 = [5 / 2]
   \<and> heap (snd (differential_magnitude (PyStr ''average'') example_double)) 1
       = [(- 2.5) * log 10 (19 / 10)]"
  using average_magnitudes [of example_double 2 "[0, 1]"]
  by (simp add: example_double_fields log10_tenth numeral_2_eq_2)

subsection \<open>C2: the flux series after computing magnitudes\<close>

text \<open>
  C2 does not hold with several references. \<open>reference_diff_mag\<close> is a shallow copy, so
  the magnitudes are written into the lists of \<open>self.reference\<close>. At \<open>example_double\<close>
  the reference flux series \<open>[10]\<close> and \<open>[190]\<close> hold \<open>[2.5]\<close> and
  \<open>[-2.5 * log10(1.9)]\<close> after the call, the same lists that \<open>reference_magnitude\<close>
  holds, and a second call computes a target magnitude other than the first one's \<open>0\<close>.
\<close>

theorem compute_overwrites_reference_flux:
  "heap example_double 0 = [10] \<and> heap example_double 1 = [190]
   \<and> reference example_double = [RRef 0, RRef 1]
   \<and> fst (differential_magnitude (PyStr ''average'') example_double) = Done
   \<and> reference example_computed = [RRef 0, RRef 1]
   \<and> heap example_computed 0 = [5 / 2]
   \<and> heap example_computed 1 = [(- 2.5) * log 10 (19 / 10)]
   \<and> reference_magnitude example_computed = Some [RRef 0, RRef 1]
   \<and> target_magnitude example_computed = Some [0]
   \<and> target_magnitude (snd (differential_magnitude (PyStr ''average'') example_computed))
       \<noteq> Some [0]"
proof -
  let ?L = "log 10 (19 / 10)"
  let ?avg = "(5 / 2 + (- 2.5) * ?L) / 2"
  have tm: "target_magnitude (snd (differential_magnitude (PyStr ''average'') example_computed))
      = Some [(- 2.5) * log 10 (100 / ?avg)]"
    by (simp add: differential_magnitude_def example_computed_fields)
  have bounds: "0 < (5 / 2 + (- 2.5) * x) / 2 \<and> (5 / 2 + (- 2.5) * x) / 2 < 100"
    if "0 < x" and "x < 1" for x :: real
    using that by simp
  have pos: "0 < ?avg" and small: "?avg < 100"
    using bounds [OF log10_19] by blast+
  have key: "(- 2.5) * log 10 (100 / a) \<noteq> 0" if "0 < a" and "a < 100" for a :: real
  proof -
    have one: "1 < 100 / a"
      using that by simp
    have "(0 < log 10 (100 / a)) = (1 < 100 / a)"
      by (rule zero_less_log_cancel_iff) (use that in simp_all)
    then have "0 < log 10 (100 / a)"
      using one by (simp only:)
    then show ?thesis
      by simp
  qed
  have "(- 2.5) * log 10 (100 / ?avg) \<noteq> 0"
    using pos small by (rule key)
  then show ?thesis
    unfolding tm
    by (simp add: example_computed_fields example_double_fields
        example_computed_def [symmetric])
qed

subsection \<open>C3: a method other than \<open>'average'\<close>\<close>

text \<open>
  C3. \<open>differential_magnitude('median')\<close> raises \<open>UnboundLocalError\<close>, from the assignment
  after the skipped branch, where C3 asks for an error that names the unsupported method.
  The object is left as it was: no magnitude series is produced or modified.
\<close>

theorem other_method_unbound_local:
  "differential_magnitude (PyStr ''median'') s = (Raised UnboundLocalError, s)"
  by (simp add: differential_magnitude_def)

subsection \<open>C4: what reconfiguring resets\<close>

text \<open>
  C4 as stated fails: on the extracted \<open>example_single\<close>, \<open>set_target\<close> with a valid
  position leaves the reference flux series \<open>[100]\<close> in place, and \<open>set_reference\<close> with
  a valid position leaves the target flux series \<open>[10]\<close> in place.
\<close>

theorem reconfiguration_counterexample:
  "target example_single = [10] \<and> reference example_single = [RNum 100]
   \<and> fst (set_target example_lib (PyTuple [PyNum 11, PyNum 1]) (PyNum 8) PyNone example_single) = Done
   \<and> reference (snd (set_target example_lib (PyTuple [PyNum 11, PyNum 1]) (PyNum 8) PyNone
         example_single)) = [RNum 100]
   \<and> fst (set_reference example_lib (PyTuple [PyNum 101, PyNum 1]) (PyNum 8) PyNone example_single) = Done
   \<and> target (snd (set_reference example_lib (PyTuple [PyNum 101, PyNum 1]) (PyNum 8) PyNone
         example_single)) = [10]"
  by (simp add: set_target_def set_reference_def example_lib_def example_single_fields)

text \<open>
  C4, amended. In every state, with a position that \<open>CircularAperture\<close> accepts:
  \<^item> \<open>set_target\<close> with a tuple of length 2 resets the target flux series to empty and
    leaves the reference flux series, and the lists it refers to, as they were;
  \<^item> \<open>set_reference\<close> with a tuple of length 2 resets the reference flux series to empty
    and leaves the target flux series as it was;
  \<^item> \<open>set_reference\<close> with a list whose first entry has length 2 resets the reference
    flux series to one new, empty list per position and leaves the target flux series as
    it was.
\<close>

theorem reconfiguration_resets_own_series:
  assumes "aperture_init lib position radius = None"
  shows "(is_tuple position \<and> py_len position = Inr 2 \<longrightarrow>
            fst (set_target lib position radius name s) = Done
          \<and> target (snd (set_target lib position radius name s)) = []
          \<and> reference (snd (set_target lib position radius name s)) = reference s
          \<and> heap (snd (set_target lib position radius name s)) = heap s
          \<and> fst (set_reference lib position radius name s) = Done
          \<and> reference (snd (set_reference lib position radius name s)) = []
          \<and> target (snd (set_reference lib position radius name s)) = target s)
       \<and> (\<forall>p ps. position = PyList (p # ps) \<and> py_len p = Inr 2 \<longrightarrow>
            fst (set_reference lib position radius name s) = Done
          \<and> reference (snd (set_reference lib position radius name s))
              = map RRef [next_addr s ..< next_addr s + length (p # ps)]
          \<and> (\<forall>a\<in>set [next_addr s ..< next_addr s + length (p # ps)].
                heap (snd (set_reference lib position radius name s)) a = [])
          \<and> target (snd (set_reference lib position radius name s)) = target s)"
  using assms by (auto simp: set_target_def set_reference_def new_lists_def Let_def)

text \<open>The theorem at \<open>example_single\<close>, with a tuple and with a list of two positions.\<close>

theorem reconfiguration_resets_own_series_witness:
  "target example_single = [10] \<and> reference example_single = [RNum 100]
   \<and> target (snd (set_target example_lib (PyTuple [PyNum 11, PyNum 1]) (PyNum 8) PyNone
         example_single)) = []
   \<and> reference (snd (set_target example_lib (PyTuple [PyNum 11, PyNum 1]) (PyNum 8) PyNone
         example_single)) = [RNum 100]
   \<and> reference (snd (set_reference example_lib (PyTuple [PyNum 11, PyNum 1]) (PyNum 8) PyNone
         example_single)) = []
   \<and> target (snd (set_reference example_lib (PyTuple [PyNum 11, PyNum 1]) (PyNum 8) PyNone
         example_single)) = [10]
   \<and> reference (snd (set_reference example_lib
         (PyList [PyTuple [PyNum 10, PyNum 0], PyTuple [PyNum 190, PyNum 0]]) (PyNum 8) PyNone
         example_single)) = [RRef 0, RRef 1]
   \<and> target (snd (set_reference example_lib
         (PyList [PyTuple [PyNum 10, PyNum 0], PyTuple [PyNum 190, PyNum 0]]) (PyNum 8) PyNone
         example_single)) = [10]"
proof -
  have ok: "aperture_init example_lib position radius = None" for position radius
    by (simp add: example_lib_def)
  from reconfiguration_resets_own_series [OF ok, of "PyTuple [PyNum 11, PyNum 1]" "PyNum 8"
      PyNone example_single]
  have tuple: "target (snd (set_target example_lib (PyTuple [PyNum 11, PyNum 1]) (PyNum 8) PyNone
         example_single)) = []"
    "reference (snd (set_target example_lib (PyTuple [PyNum 11, PyNum 1]) (PyNum 8) PyNone
         example_single)) = reference example_single"
    "reference (snd (set_reference example_lib (PyTuple [PyNum 11, PyNum 1]) (PyNum 8) PyNone
         example_single)) = []"
    "target (snd (set_reference example_lib (PyTuple [PyNum 11, PyNum 1]) (PyNum 8) PyNone
         example_single)) = target example_single"
    by simp_all
  from reconfiguration_resets_own_series [OF ok,
      of "PyList [PyTuple [PyNum 10, PyNum 0], PyTuple [PyNum 190, PyNum 0]]" "PyNum 8"
      PyNone example_single]
  have lst: "reference (snd (set_reference example_lib
         (PyList [PyTuple [PyNum 10, PyNum 0], PyTuple [PyNum 190, PyNum 0]]) (PyNum 8) PyNone
         example_single)) = map RRef [next_addr example_single ..< next_addr example_single + 2]"
    "target (snd (set_reference example_lib
         (PyList [PyTuple [PyNum 10, PyNum 0], PyTuple [PyNum 190, PyNum 0]]) (PyNum 8) PyNone
         example_single)) = target example_single"
    by simp_all
  show ?thesis
    unfolding tuple lst
    by (simp add: example_single_fields example_single_next_addr upt_rec)
qed

subsection \<open>C5: the length of the flux series\<close>

text \<open>
  C5 does not hold in every reachable state. The guard of \<open>read_apertures\<close> looks at
  \<open>self.target\<close> only, so after an extraction \<open>set_target\<close> alone opens the way for a
  second pass, which appends to the reference series of the first: on one frame the
  reference flux series then has two values.
\<close>

theorem re_extraction_doubles_reference:
  "fst (set_target example_lib (PyTuple [PyNum 10, PyNum 0]) (PyNum 8) PyNone example_single) = Done
   \<and> fst (read_apertures example_lib
       (snd (set_target example_lib (PyTuple [PyNum 10, PyNum 0]) (PyNum 8) PyNone
          example_single))) = Done
   \<and> length (hdu_list example_reextracted) = 1
   \<and> target example_reextracted = [10]
   \<and> reference example_reextracted = [RNum 100, RNum 100]"
  by (simp add: example_reextracted_def example_single_def example_defs)

subsection \<open>C6: a second extraction\<close>

text \<open>
  C6 as stated fails. On the extracted \<open>example_single\<close> a second \<open>read_apertures\<close>
  prints its message and returns: nothing is raised. On a catalog without frames the
  target series is still empty after the first pass, and the second pass runs again
  without even the message.
\<close>

theorem second_extraction_counterexample:
  "target example_single = [10] \<and> reference example_single = [RNum 100]
   \<and> read_apertures example_lib example_single = (Printed PhotometryAlreadyPerformed, example_single)
   \<and> raised (fst (read_apertures example_lib example_single)) = None
   \<and> read_apertures example_lib example_empty = (Done, example_empty)"
  by (simp add: read_apertures_def example_single_fields example_single_configured
      example_empty_fields)

text \<open>
  C6, amended. In every state with a target and a reference configured and a target
  flux series that is not empty, \<open>read_apertures\<close> raises nothing: it prints that aperture
  photometry has been performed already and returns, and the object, with both flux
  series, is as it was.
\<close>

theorem second_extraction_prints:
  assumes "target_pos s \<noteq> PyNone" and "reference_pos s \<noteq> PyNone" and "target s \<noteq> []"
  shows "read_apertures lib s = (Printed PhotometryAlreadyPerformed, s)"
  using assms by (simp add: read_apertures_def)

theorem second_extraction_prints_witness:
  "read_apertures example_lib example_single = (Printed PhotometryAlreadyPerformed, example_single)"
  using second_extraction_prints [of example_single example_lib]
  by (simp add: example_single_fields example_single_configured)

subsection \<open>C7: one reference\<close>

text \<open>
  C7. With \<open>number_of_references = 1\<close>, a flat reference flux series as long as the target
  flux series, and strictly positive values in both, \<open>differential_magnitude('average')\<close>
  prints that no average is computed, returns normally, and sets
  \<open>target_magnitude[i] = -2.5 * log10(target[i] / reference[i])\<close> and
  \<open>reference_magnitude[i] = 0\<close> for every frame \<open>i\<close>. Nothing else of the object changes.
\<close>

theorem single_reference_magnitudes:
  assumes "number_of_references s = Some 1"
    and "reference s = map RNum rs"
    and "length rs = length (target s)"
    and "\<forall>x\<in>set rs. 0 < x"
    and "\<forall>x\<in>set (target s). 0 < x"
  shows "differential_magnitude (PyStr ''average'') s =
     (Outcome [AverageNotComputed] None,
      s\<lparr>target_magnitude :=
          Some (map (\<lambda>i. (- 2.5) * log 10 (target s ! i / rs ! i)) [0..<length (target s)]),
        reference_magnitude := Some (replicate (length (target s)) (RNum 0))\<rparr>)"
proof -
  have "\<forall>x\<in>set rs. x \<noteq> 0"
    using assms(4) by auto
  from single_loop_all [OF assms(3) this] show ?thesis
    using assms(1,2,3) by (simp add: differential_magnitude_def)
qed

text \<open>The theorem at \<open>example_single\<close>: target flux 10, reference flux 100, magnitude 2.5.\<close>

theorem single_reference_magnitudes_witness:
  "target example_single = [10] \<and> reference example_single = [RNum 100]
   \<and> differential_magnitude (PyStr ''average'') example_single =
       (Outcome [AverageNotComputed] None,
        example_single\<lparr>target_magnitude := Some [5 / 2], reference_magnitude := Some [RNum 0]\<rparr>)"
  using single_reference_magnitudes [of example_single "[100]"]
  by (simp add: example_single_fields log10_tenth)

subsection \<open>C8: a path without a wildcard\<close>

text \<open>
  C8. \<open>Lightcurve("/data/lights")\<close>, the directory form of the docstring, raises
  \<open>AttributeError\<close> on every file system: the branch for a path without \<open>*\<close> reads
  \<open>self.path\<close>, which is never set, where \<open>path\<close> was meant. No object is constructed.
\<close>

theorem init_directory_path_fails:
  "init fs ''/data/lights'' = Inl AttributeError"
  by (simp add: init_def)

subsection \<open>C9: the order of the frames\<close>

text \<open>
  C9. When \<open>__init__\<close> succeeds, \<open>fits_list\<close> is the list \<open>glob\<close> found, sorted ascending
  in the lexicographic order of strings, and \<open>hdu_list\<close> holds the first HDU of each of
  these files in that order. In every state, \<open>set_target\<close>, \<open>set_reference\<close>,
  \<open>read_apertures\<close> and \<open>differential_magnitude\<close> leave \<open>fits_list\<close> and \<open>hdu_list\<close> as
  they were, whatever they print or raise.
\<close>

theorem frame_order_fixed:
  assumes "init fs path = Inr lc"
  shows "sorted (fits_list lc)
     \<and> mset (fits_list lc) = mset (glob fs path)
     \<and> map (fits_open fs) (fits_list lc) = map Inr (hdu_list lc)
     \<and> fits_list (snd (set_target lib position radius name s)) = fits_list s
     \<and> hdu_list (snd (set_target lib position radius name s)) = hdu_list s
     \<and> fits_list (snd (set_reference lib position radius name s)) = fits_list s
     \<and> hdu_list (snd (set_reference lib position radius name s)) = hdu_list s
     \<and> fits_list (snd (read_apertures lib s)) = fits_list s
     \<and> hdu_list (snd (read_apertures lib s)) = hdu_list s
     \<and> fits_list (snd (differential_magnitude method s)) = fits_list s
     \<and> hdu_list (snd (differential_magnitude method s)) = hdu_list s"
proof -
  from assms obtain hs jds where
    load: "load_frames fs (sort (glob fs path)) = Inr (hs, jds)"
    and lc: "lc = new_lightcurve (sort (glob fs path)) hs jds"
    by (auto simp: init_def Let_def split: if_splits option.splits sum.splits)
  have "sorted (fits_list lc)" "mset (fits_list lc) = mset (glob fs path)"
    by (simp_all add: lc new_lightcurve_def)
  moreover have "map (fits_open fs) (fits_list lc) = map Inr (hdu_list lc)"
    using load_frames_in_order [OF load] by (simp add: lc new_lightcurve_def)
  ultimately show ?thesis
    by (simp add: set_target_catalog set_reference_catalog read_apertures_catalog
        differential_magnitude_catalog)
qed

text \<open>
  The theorem at \<open>example_fs\<close>: \<open>glob\<close> finds \<open>f2\<close>, \<open>f10\<close>, \<open>f1\<close> and the catalog
  enumerates \<open>f1\<close>, \<open>f10\<close>, \<open>f2\<close>.
\<close>

theorem frame_order_fixed_witness:
  "glob example_fs ''/d/*'' = [''/d/f2'', ''/d/f10'', ''/d/f1'']
   \<and> init example_fs ''/d/*'' = Inr example_catalog
   \<and> fits_list example_catalog = [''/d/f1'', ''/d/f10'', ''/d/f2'']
   \<and> sorted (fits_list example_catalog)
   \<and> fits_list (snd (read_apertures example_lib example_catalog)) = [''/d/f1'', ''/d/f10'', ''/d/f2'']"
proof -
  have g: "glob example_fs ''/d/*'' = [''/d/f2'', ''/d/f10'', ''/d/f1'']"
    by (simp add: example_fs_def)
  have fl: "fits_list example_catalog = [''/d/f1'', ''/d/f10'', ''/d/f2'']"
    by (simp add: example_catalog_def new_lightcurve_def)
  from frame_order_fixed [OF example_catalog_init, of example_lib PyNone PyNone PyNone
      example_catalog PyNone]
  have "sorted (fits_list example_catalog)"
    and "fits_list (snd (read_apertures example_lib example_catalog)) = fits_list example_catalog"
    by blast+
  then show ?thesis
    using g fl example_catalog_init by (simp only: simp_thms)
qed

subsection \<open>C10: \<open>set_reference\<close> with an empty list\<close>

text \<open>
  C10. \<open>set_reference\<close> called with the empty list as position raises \<open>IndexError\<close>
  (from \<open>position[0]\<close>), prints no validation message, and leaves the object as it was:
  no reference position, reference count, aperture, name or flux series is stored.
\<close>

theorem set_reference_empty_list_raises:
  "set_reference lib (PyList []) radius name s = (Raised IndexError, s)"
  by (simp add: set_reference_def)

end
